theory Spec2Isabelle
  imports Main "HOL-Library.AList"
begin

section \<open>The collaborative map of routerlicious (src/api/map.ts)\<close>

text \<open>
  The class \<open>Map\<close> of \<open>map.ts\<close> is embedded as a record of its fields together with
  the part of its surroundings that its methods act on: the JavaScript objects that
  \<open>this.data\<close> and the snapshot blobs point to (a store, since \<open>setCore\<close> and
  \<open>deleteCore\<close> update \<open>this.data\<close> in place while \<open>clearCore\<close> and \<open>load\<close>
  replace it), the events emitted, the console, the messages handed to the delta
  manager, the blobs handed to the storage service and the continuations of the
  \<open>async\<close> methods that are suspended at an \<open>await\<close>.

  Numbers are JavaScript numbers used as counters; they are modelled as \<open>int\<close>.
  A property map (\<open>this.data\<close>, \<open>this.collaborativeObjects\<close>) is an association list
  in insertion order; keys inherited from \<open>Object.prototype\<close> are not modelled.
\<close>

subsection \<open>Values, operations and messages\<close>

datatype json = JNull | JBool bool | JNum int | JStr string
  | JArr "json list" | JObj "(string \<times> json) list"

text \<open>\<open>ICollaborativeMapValue\<close>: the serialized form of a reference to a nested object.\<close>

record ICollaborativeMapValue =
  cmv_type :: string
  cmv_id :: string

text \<open>
  \<open>api.ICollaborativeObject\<close>, as far as \<open>map.ts\<close> uses it: \<open>id\<close>, \<open>type\<close> and what
  \<open>isLocal()\<close> answers at present. Such a value is the only one that carries the
  \<open>__collaborativeObject__\<close> marker probed by \<open>set\<close>.
\<close>

record ICollaborativeObject =
  co_id :: string
  co_type :: string
  co_isLocal :: bool

text \<open>The values of type \<open>any\<close> that pass through the map.\<close>

datatype any = Undefined
  | Plain json
  | CollabMapValue ICollaborativeMapValue
  | CollabObject ICollaborativeObject

text \<open>\<open>IMapValue\<close>; \<open>mv_type\<close> is \<open>ValueType[...]\<close>, that is \<open>''Collaborative''\<close> or \<open>''Plain''\<close>.\<close>

record IMapValue =
  mv_type :: string
  mv_value :: any

text \<open>\<open>IMapOperation\<close>; \<open>key\<close> and \<open>value\<close> are optional in the source.\<close>

record IMapOperation =
  op_type :: string
  op_key :: "string option"
  op_value :: "IMapValue option"

text \<open>\<open>api.IMessage\<close>, the entries of \<open>localOps\<close>.\<close>

record IMessage =
  msg_clientSequenceNumber :: int
  msg_op :: IMapOperation
  msg_referenceSequenceNumber :: int

text \<open>
  \<open>api.IBase\<close> and \<open>api.ISequencedMessage\<close>: a message with the fields the server adds.
  For a message that is not an operation the fields \<open>seq_clientId\<close>,
  \<open>seq_clientSequenceNumber\<close> and \<open>seq_op\<close> are never read.
\<close>

record ISequencedMessage =
  seq_sequenceNumber :: int
  seq_minimumSequenceNumber :: int
  seq_type :: string
  seq_clientId :: string
  seq_clientSequenceNumber :: int
  seq_op :: IMapOperation

text \<open>\<open>ISnapshot\<close> as \<open>JSON.parse\<close> returns it in \<open>load\<close>.\<close>

record ISnapshot =
  snap_sequenceNumber :: int
  snap_snapshot :: "(string \<times> IMapValue) list"

text \<open>\<open>api.IDeltaConnection\<close>, what \<open>connect\<close> resolves to.\<close>

record IDeltaConnection =
  clientId :: string
  existing :: bool

text \<open>
  Modelled from the spec: \<open>api.OperationType\<close> is declared outside \<open>map.ts\<close>; it is the
  value of the \<open>type\<close> field of a sequenced message whose kind is Operation.
\<close>

definition OperationType :: string where
  "OperationType = ''op''"

text \<open>
  Modelled from the spec: the class \<open>DeltaManager\<close> is declared outside \<open>map.ts\<close>. It is
  created from the sequence number reached so far, and \<open>submitOp\<close> hands a message to
  the transport; the messages handed over are kept, in order, in \<open>outbound\<close> below.
\<close>

record DeltaManager =
  dm_sequenceNumber :: int

text \<open>
  The collaboration services and the registry are external. The services are an
  opaque handle; of the registry only the types it has an extension for matter.
\<close>

type_synonym ICollaborationServices = nat
type_synonym Registry = "string list"

datatype error = AssertionError | TypeError | UnknownOperation

datatype 'a completion = Return 'a | Throw error

datatype event = ValueChanged string | Clear

datatype log_line = DuplicateAck int

datatype promise = Pending | Resolved

text \<open>The object written by \<open>snapshot()\<close>: a number and a pointer to the cloned data.\<close>

record blob =
  blob_sequenceNumber :: int
  blob_snapshot :: nat

text \<open>The calls of the public \<open>async\<close> methods whose first statement is \<open>await this.loadingP\<close>.\<close>

datatype call = Keys | Get string | Has string | Set string any | Delete string | ClearAll

datatype answer = Void | Value any | Flag bool | Names "string list"

datatype load_stage = NoLoad | AwaitConnect | AwaitRead | Loaded

subsection \<open>The state\<close>

type_synonym jsobject = "(string \<times> IMapValue option) list"

record state =
  \<comment> \<open>fields of the class\<close>
  map_id :: string
  services :: "ICollaborationServices option"
  registry :: "Registry option"
  loadingP :: promise
  data :: nat
  connection :: "IDeltaConnection option"
  deltaManager :: "DeltaManager option"
  localOps :: "IMessage list"
  sequenceNumber :: int
  minimumSequenceNumber :: int
  clientSequenceNumber :: int
  collaborativeObjects :: "(string \<times> ICollaborativeObject) list"
  \<comment> \<open>the store of property maps, and the next free address\<close>
  heap :: "nat \<Rightarrow> jsobject"
  next_addr :: nat
  \<comment> \<open>what the methods do to their surroundings\<close>
  emitted :: "event list"
  console :: "log_line list"
  outbound :: "IMessage list"
  written :: "(string \<times> blob) list"
  uncaught :: "error list"
  \<comment> \<open>suspended continuations\<close>
  load_stage :: load_stage
  attaching :: nat
  waiters :: "call list"
  suspended :: "(string \<times> IMessage) list"
  settled :: "(call \<times> answer completion) list"
  attach_settled :: "unit completion list"

text \<open>A slot of \<open>this.data\<close> may hold \<open>undefined\<close> (a set operation without a value): \<open>None\<close>.\<close>

definition the_data :: "state \<Rightarrow> jsobject" where
  "the_data s = heap s (data s)"

text \<open>An absent key is used as the property name \<open>undefined\<close>.\<close>

definition property_key :: "string option \<Rightarrow> string" where
  "property_key k = (case k of None \<Rightarrow> ''undefined'' | Some x \<Rightarrow> x)"

subsection \<open>Map state primitives\<close>

definition setCore :: "string \<Rightarrow> IMapValue option \<Rightarrow> state \<Rightarrow> state" where
  "setCore key v s =
     s\<lparr>heap := (heap s)(data s := AList.update key v (heap s (data s))),
       emitted := emitted s @ [ValueChanged key]\<rparr>"

definition clearCore :: "state \<Rightarrow> state" where
  "clearCore s =
     s\<lparr>heap := (heap s)(next_addr s := []),
       data := next_addr s,
       next_addr := Suc (next_addr s),
       emitted := emitted s @ [Clear]\<rparr>"

definition deleteCore :: "string \<Rightarrow> state \<Rightarrow> state" where
  "deleteCore key s =
     s\<lparr>heap := (heap s)(data s := AList.delete key (heap s (data s))),
       emitted := emitted s @ [ValueChanged key]\<rparr>"

definition processOperation :: "IMapOperation \<Rightarrow> state \<Rightarrow> unit completion \<times> state" where
  "processOperation opn s =
     (if op_type opn = ''clear'' then (Return (), clearCore s)
      else if op_type opn = ''delete'' then (Return (), deleteCore (property_key (op_key opn)) s)
      else if op_type opn = ''set'' then (Return (), setCore (property_key (op_key opn)) (op_value opn) s)
      else (Throw UnknownOperation, s))"

subsection \<open>Messages from the remote service\<close>

definition processRemoteOperation :: "ISequencedMessage \<Rightarrow> state \<Rightarrow> unit completion \<times> state" where
  "processRemoteOperation message s =
     (case connection s of
        None \<Rightarrow> (Throw TypeError, s)
      | Some c \<Rightarrow>
          if seq_clientId message = clientId c then
            (if length (localOps s) > 0 \<and>
                msg_clientSequenceNumber (hd (localOps s)) = seq_clientSequenceNumber message
             then (Return (), s\<lparr>localOps := tl (localOps s)\<rparr>)
             else (Return (),
                   s\<lparr>console := console s @ [DuplicateAck (seq_clientSequenceNumber message)]\<rparr>))
          else processOperation (seq_op message) s)"

definition processRemoteMessage :: "ISequencedMessage \<Rightarrow> state \<Rightarrow> unit completion \<times> state" where
  "processRemoteMessage message s =
     (if sequenceNumber s + 1 \<noteq> seq_sequenceNumber message then (Throw AssertionError, s)
      else
        let s1 = s\<lparr>sequenceNumber := seq_sequenceNumber message,
                   minimumSequenceNumber := seq_minimumSequenceNumber message\<rparr>
        in if seq_type message = OperationType then processRemoteOperation message s1
           else (Return (), s1))"

subsection \<open>Submission to the delta manager\<close>

text \<open>
  \<open>this.deltaManager.submitOp(message)\<close>. The field is \<open>null\<close> until
  \<open>listenForUpdates\<close> has run; calling a method of \<open>null\<close> is a \<open>TypeError\<close>.
\<close>

definition submitOp :: "IMessage \<Rightarrow> state \<Rightarrow> unit completion \<times> state" where
  "submitOp message s =
     (case deltaManager s of
        None \<Rightarrow> (Throw TypeError, s)
      | Some dm \<Rightarrow> (Return (), s\<lparr>outbound := outbound s @ [message]\<rparr>))"

text \<open>
  \<open>submit\<close> up to the point where it returns its promise to the caller. It returns
  \<open>None\<close> when it has suspended at \<open>await collabObject.attach(...)\<close>: the message is then
  kept in \<open>suspended\<close> with the id of the nested object, and \<open>submit_resume\<close> is the rest
  of the method. Otherwise the method has run to its end, with the completion that
  settles its promise.
\<close>

definition submit :: "IMessage \<Rightarrow> state \<Rightarrow> unit completion option \<times> state" where
  "submit message s =
     (let opn = msg_op message in
      if op_type opn = ''set'' then
        (case op_value opn of
           None \<Rightarrow> (Some (Throw TypeError), s)
         | Some v \<Rightarrow>
             if mv_type v = ''Collaborative'' then
               (case mv_value v of
                  CollabMapValue collabMapValue \<Rightarrow>
                    (case map_of (collaborativeObjects s) (cmv_id collabMapValue) of
                       None \<Rightarrow> (Some (Throw TypeError), s)
                     | Some collabObject \<Rightarrow>
                         if co_isLocal collabObject
                         then (None, s\<lparr>suspended := suspended s @ [(cmv_id collabMapValue, message)]\<rparr>)
                         else (case submitOp message s of (r, s') \<Rightarrow> (Some r, s')))
                | _ \<Rightarrow> (Some (Throw TypeError), s))
             else (case submitOp message s of (r, s') \<Rightarrow> (Some r, s')))
      else (case submitOp message s of (r, s') \<Rightarrow> (Some r, s')))"

text \<open>
  No caller of \<open>submit\<close> awaits or inspects its promise: a rejection is an unhandled
  one and does not reach the caller.
\<close>

definition call_submit :: "IMessage \<Rightarrow> state \<Rightarrow> state" where
  "call_submit message s =
     (case submit message s of
        (Some (Throw e), s') \<Rightarrow> s'\<lparr>uncaught := uncaught s' @ [e]\<rparr>
      | (_, s') \<Rightarrow> s')"

text \<open>
  The continuation of the \<open>i\<close>-th suspended \<open>submit\<close>, run when the promise of the nested
  \<open>attach\<close> it awaits settles. When the promise is fulfilled the nested object has a
  connection, so its \<open>isLocal()\<close> answers false from then on, and the message is
  submitted; when it is rejected the \<open>await\<close> throws and \<open>submit\<close> ends there.
\<close>

definition mark_attached :: "string \<Rightarrow> (string \<times> ICollaborativeObject) list
    \<Rightarrow> (string \<times> ICollaborativeObject) list" where
  "mark_attached i objs =
     (case map_of objs i of
        None \<Rightarrow> objs
      | Some ob \<Rightarrow> AList.update i (ob\<lparr>co_isLocal := False\<rparr>) objs)"

definition submit_resume :: "nat \<Rightarrow> unit completion \<Rightarrow> state \<Rightarrow> state" where
  "submit_resume i attached s =
     (if i < length (suspended s) then
        (let (nested, message) = suspended s ! i;
             s1 = s\<lparr>suspended := take i (suspended s) @ drop (Suc i) (suspended s)\<rparr>
         in case attached of
              Return u \<Rightarrow>
                (case submitOp message
                        (s1\<lparr>collaborativeObjects := mark_attached nested (collaborativeObjects s1)\<rparr>) of
                   (Throw e, s2) \<Rightarrow> s2\<lparr>uncaught := uncaught s2 @ [e]\<rparr>
                 | (Return u', s2) \<Rightarrow> s2)
            | Throw e \<Rightarrow> s1\<lparr>uncaught := uncaught s1 @ [e]\<rparr>)
      else s)"

subsection \<open>Local operations\<close>

definition processLocalOperation :: "IMapOperation \<Rightarrow> state \<Rightarrow> unit completion \<times> state" where
  "processLocalOperation opn s =
     (let message = \<lparr>msg_clientSequenceNumber = clientSequenceNumber s,
                     msg_op = opn,
                     msg_referenceSequenceNumber = sequenceNumber s\<rparr>;
          s1 = s\<lparr>clientSequenceNumber := clientSequenceNumber s + 1\<rparr>;
          s2 = s1\<lparr>localOps := localOps s1 @ [message]\<rparr>;
          s3 = (if connection s2 \<noteq> None then call_submit message s2 else s2)
      in processOperation opn s3)"

subsection \<open>The public methods, after their \<open>await this.loadingP\<close>\<close>

definition keys_body :: "state \<Rightarrow> answer completion \<times> state" where
  "keys_body s = (Return (Names (map fst (the_data s))), s)"

text \<open>
  \<open>this.registry.getExtension(type)\<close> followed by \<open>extension.load(id, services, registry)\<close>.
  A registry that is \<open>undefined\<close>, or that has no extension for the type, makes the call
  a \<open>TypeError\<close>. The object an extension loads is a new one under load, which
  has no connection yet (as \<open>MapExtension.load\<close> below).

  A stored value tagged \<open>''Collaborative''\<close> is cast to \<open>ICollaborativeMapValue\<close>
  without a check; for a value that is none the method ends in a \<open>TypeError\<close>.
\<close>

definition load_extension :: "state \<Rightarrow> ICollaborativeMapValue \<Rightarrow> ICollaborativeObject option" where
  "load_extension s collabMapValue =
     (case registry s of
        None \<Rightarrow> None
      | Some known \<Rightarrow>
          if cmv_type collabMapValue \<in> set known
          then Some \<lparr>co_id = cmv_id collabMapValue, co_type = cmv_type collabMapValue,
                     co_isLocal = True\<rparr>
          else None)"

definition get_body :: "string \<Rightarrow> state \<Rightarrow> answer completion \<times> state" where
  "get_body key s =
     (case map_of (the_data s) key of
        None \<Rightarrow> (Return (Value Undefined), s)
      | Some None \<Rightarrow> (Throw TypeError, s)
      | Some (Some v) \<Rightarrow>
          if mv_type v = ''Collaborative'' then
            (case mv_value v of
               CollabMapValue collabMapValue \<Rightarrow>
                 (case map_of (collaborativeObjects s) (cmv_id collabMapValue) of
                    Some ob \<Rightarrow> (Return (Value (CollabObject ob)), s)
                  | None \<Rightarrow>
                      (case load_extension s collabMapValue of
                         None \<Rightarrow> (Throw TypeError, s)
                       | Some ob \<Rightarrow>
                           (Return (Value (CollabObject ob)),
                            s\<lparr>collaborativeObjects :=
                                 AList.update (cmv_id collabMapValue) ob (collaborativeObjects s)\<rparr>)))
             | _ \<Rightarrow> (Throw TypeError, s))
          else (Return (Value (mv_value v)), s))"

definition has_body :: "string \<Rightarrow> state \<Rightarrow> answer completion \<times> state" where
  "has_body key s = (Return (Flag (map_of (the_data s) key \<noteq> None)), s)"

definition void :: "unit completion \<times> state \<Rightarrow> answer completion \<times> state" where
  "void r = (case r of (Return u, s) \<Rightarrow> (Return Void, s) | (Throw e, s) \<Rightarrow> (Throw e, s))"

definition set_body :: "string \<Rightarrow> any \<Rightarrow> state \<Rightarrow> answer completion \<times> state" where
  "set_body key v s =
     (case v of
        CollabObject collaborativeObject \<Rightarrow>
          (let s1 = s\<lparr>collaborativeObjects :=
                        AList.update (co_id collaborativeObject) collaborativeObject
                          (collaborativeObjects s)\<rparr>;
               collabMapValue = \<lparr>cmv_type = co_type collaborativeObject,
                                 cmv_id = co_id collaborativeObject\<rparr>;
               operationValue = \<lparr>mv_type = ''Collaborative'',
                                 mv_value = CollabMapValue collabMapValue\<rparr>
           in void (processLocalOperation
                \<lparr>op_type = ''set'', op_key = Some key, op_value = Some operationValue\<rparr> s1))
      | _ \<Rightarrow>
          (let operationValue = \<lparr>mv_type = ''Plain'', mv_value = v\<rparr>
           in void (processLocalOperation
                \<lparr>op_type = ''set'', op_key = Some key, op_value = Some operationValue\<rparr> s)))"

definition delete_body :: "string \<Rightarrow> state \<Rightarrow> answer completion \<times> state" where
  "delete_body key s =
     void (processLocalOperation \<lparr>op_type = ''delete'', op_key = Some key, op_value = None\<rparr> s)"

definition clear_body :: "state \<Rightarrow> answer completion \<times> state" where
  "clear_body s =
     void (processLocalOperation \<lparr>op_type = ''clear'', op_key = None, op_value = None\<rparr> s)"

fun body :: "call \<Rightarrow> state \<Rightarrow> answer completion \<times> state" where
  "body Keys s = keys_body s"
| "body (Get key) s = get_body key s"
| "body (Has key) s = has_body key s"
| "body (Set key v) s = set_body key v s"
| "body (Delete key) s = delete_body key s"
| "body ClearAll s = clear_body s"

subsection \<open>Snapshot, attach, isLocal and load\<close>

text \<open>
  \<open>snapshot()\<close> is not an \<open>async\<close> method and has no \<open>await\<close>: it runs when it is
  called. \<open>_.clone\<close> makes a new object with the slots of \<open>this.data\<close>; the blob points
  to it. The services are \<open>undefined\<close> for a map created without them.
\<close>

definition snapshot :: "state \<Rightarrow> unit completion \<times> state" where
  "snapshot s =
     (let snap = \<lparr>blob_sequenceNumber = sequenceNumber s, blob_snapshot = next_addr s\<rparr>;
          s1 = s\<lparr>heap := (heap s)(next_addr s := heap s (data s)),
                 next_addr := Suc (next_addr s)\<rparr>
      in case services s1 of
           None \<Rightarrow> (Throw TypeError, s1)
         | Some sv \<Rightarrow> (Return (), s1\<lparr>written := written s1 @ [(map_id s1, snap)]\<rparr>))"

definition listenForUpdates :: "state \<Rightarrow> unit completion \<times> state" where
  "listenForUpdates s =
     (case services s of
        None \<Rightarrow> (Throw TypeError, s)
      | Some sv \<Rightarrow> (Return (), s\<lparr>deltaManager := Some \<lparr>dm_sequenceNumber = sequenceNumber s\<rparr>\<rparr>))"

text \<open>\<open>attach\<close> up to its \<open>await\<close> of \<open>connect\<close>, and from there on.\<close>

definition attach_begin :: "ICollaborationServices \<Rightarrow> Registry \<Rightarrow> state \<Rightarrow> state" where
  "attach_begin sv rg s = s\<lparr>services := Some sv, registry := Some rg, attaching := Suc (attaching s)\<rparr>"

definition attach_connected :: "IDeltaConnection \<Rightarrow> state \<Rightarrow> unit completion \<times> state" where
  "attach_connected c s =
     (let s1 = s\<lparr>connection := Some c\<rparr> in
      if existing c then (Throw AssertionError, s1)
      else
        (case listenForUpdates s1 of
           (Throw e, s2) \<Rightarrow> (Throw e, s2)
         | (Return u, s2) \<Rightarrow> (Return (), foldl (\<lambda>t localOp. call_submit localOp t) s2 (localOps s2))))"

definition isLocal :: "state \<Rightarrow> bool" where
  "isLocal s = (connection s = None)"

text \<open>
  The constructor. With services it starts \<open>load\<close>, which suspends at its \<open>await\<close> of
  \<open>connect\<close> before any field is assigned; without them \<open>loadingP\<close> is a resolved
  promise. \<open>MapExtension.load\<close> and \<open>MapExtension.create\<close> are its two callers.
\<close>

definition constructor :: "string \<Rightarrow> ICollaborationServices option \<Rightarrow> Registry option \<Rightarrow> state" where
  "constructor i sv rg =
     \<lparr>map_id = i, services = sv, registry = rg,
      loadingP = (if sv \<noteq> None then Pending else Resolved),
      data = 0, connection = None, deltaManager = None, localOps = [],
      sequenceNumber = 0, minimumSequenceNumber = 0, clientSequenceNumber = 0,
      collaborativeObjects = [],
      heap = (\<lambda>a. []), next_addr = 1,
      emitted = [], console = [], outbound = [], written = [], uncaught = [],
      load_stage = (if sv \<noteq> None then AwaitConnect else NoLoad),
      attaching = 0, waiters = [], suspended = [], settled = [], attach_settled = []\<rparr>"

definition MapExtension_load :: "string \<Rightarrow> ICollaborationServices \<Rightarrow> Registry \<Rightarrow> state" where
  "MapExtension_load i sv rg = constructor i (Some sv) (Some rg)"

definition MapExtension_create :: "string \<Rightarrow> state" where
  "MapExtension_create i = constructor i None None"

text \<open>
  The end of \<open>load\<close>: the snapshot that was read (or the empty one) becomes
  \<open>this.data\<close>, a new object, and the promise \<open>loadingP\<close> is fulfilled when \<open>load\<close> returns.
\<close>

definition load_install :: "ISnapshot option \<Rightarrow> state \<Rightarrow> state" where
  "load_install raw s =
     (let snap = (case raw of
                    None \<Rightarrow> \<lparr>snap_sequenceNumber = 0, snap_snapshot = []\<rparr>
                  | Some parsed \<Rightarrow> parsed);
          s1 = s\<lparr>heap := (heap s)(next_addr s := map (\<lambda>(k, v). (k, Some v)) (snap_snapshot snap)),
                 data := next_addr s,
                 next_addr := Suc (next_addr s),
                 sequenceNumber := snap_sequenceNumber snap\<rparr>
      in case listenForUpdates s1 of
           (Throw e, s2) \<Rightarrow> s2\<lparr>load_stage := Loaded, uncaught := uncaught s2 @ [e]\<rparr>
         | (Return u, s2) \<Rightarrow> s2\<lparr>load_stage := Loaded, loadingP := Resolved\<rparr>)"

text \<open>\<open>load\<close> after \<open>connect\<close> has resolved: it awaits \<open>read\<close> only for an existing object.\<close>

definition load_connected :: "IDeltaConnection \<Rightarrow> state \<Rightarrow> state" where
  "load_connected c s =
     (let s1 = s\<lparr>connection := Some c\<rparr> in
      if existing c then s1\<lparr>load_stage := AwaitRead\<rparr> else load_install None s1)"

subsection \<open>Cooperative scheduling\<close>

text \<open>
  Everything runs on one thread. A run is a sequence of actions: calls of the public
  methods, and the resumption of suspended continuations when what they wait for has
  happened. A call of one of the six \<open>async\<close> methods only queues its body, since the
  first statement is \<open>await this.loadingP\<close>; \<open>Tick\<close> runs the queued bodies, in the order
  of the calls, once \<open>loadingP\<close> is fulfilled. \<open>AttachConnected\<close> and \<open>LoadConnected\<close>
  are the moments at which the \<open>connect\<close> awaited by \<open>attach\<close> and by \<open>load\<close> resolves,
  \<open>LoadRead\<close> the one at which the \<open>read\<close> awaited by \<open>load\<close> resolves, \<open>Deliver\<close> the
  call of the \<open>op\<close> handler by the delta manager, and \<open>NestedAttachSettled i r\<close> the moment
  at which the nested \<open>attach\<close> awaited by the \<open>i\<close>-th suspended \<open>submit\<close> settles.
\<close>

datatype action =
    Call call
  | Tick
  | Snapshot
  | Attach ICollaborationServices Registry
  | AttachConnected IDeltaConnection
  | LoadConnected IDeltaConnection
  | LoadRead "ISnapshot option"
  | Deliver ISequencedMessage
  | NestedAttachSettled nat "unit completion"

text \<open>A queued body runs to its end and settles the promise of its call.\<close>

definition settle :: "call \<Rightarrow> state \<Rightarrow> state" where
  "settle c s = (case body c s of (r, s') \<Rightarrow> s'\<lparr>settled := settled s' @ [(c, r)]\<rparr>)"

fun run_waiters :: "call list \<Rightarrow> state \<Rightarrow> state" where
  "run_waiters [] s = s"
| "run_waiters (c # cs) s = run_waiters cs (settle c s)"

definition thrown :: "unit completion \<times> state \<Rightarrow> state" where
  "thrown r = (case r of (Return u, s) \<Rightarrow> s | (Throw e, s) \<Rightarrow> s\<lparr>uncaught := uncaught s @ [e]\<rparr>)"

fun step :: "action \<Rightarrow> state \<Rightarrow> state" where
  "step (Call c) s = s\<lparr>waiters := waiters s @ [c]\<rparr>"
| "step Tick s =
     (if loadingP s = Resolved then run_waiters (waiters s) (s\<lparr>waiters := []\<rparr>) else s)"
| "step Snapshot s = thrown (snapshot s)"
| "step (Attach sv rg) s = attach_begin sv rg s"
| "step (AttachConnected c) s =
     (if attaching s = 0 then s
      else (case attach_connected c (s\<lparr>attaching := attaching s - 1\<rparr>) of
              (r, s') \<Rightarrow> s'\<lparr>attach_settled := attach_settled s' @ [r]\<rparr>))"
| "step (LoadConnected c) s =
     (if load_stage s = AwaitConnect then load_connected c s else s)"
| "step (LoadRead raw) s =
     (if load_stage s = AwaitRead then load_install raw s else s)"
| "step (Deliver message) s =
     (if deltaManager s = None then s else thrown (processRemoteMessage message s))"
| "step (NestedAttachSettled i attached) s = submit_resume i attached s"

definition run :: "action list \<Rightarrow> state \<Rightarrow> state" where
  "run acts s = foldl (\<lambda>t a. step a t) s acts"


subsection \<open>Invariants of the store\<close>

text \<open>
  \<open>this.data\<close> always points to an allocated object; \<open>keeps a ob\<close> says moreover that
  the allocated object at \<open>a\<close> is not the one \<open>this.data\<close> points to and holds \<open>ob\<close>.
\<close>

definition store_ok :: "state \<Rightarrow> bool" where
  "store_ok s = (data s < next_addr s)"

definition keeps :: "nat \<Rightarrow> jsobject \<Rightarrow> state \<Rightarrow> bool" where
  "keeps a ob s = (data s < next_addr s \<and> a < next_addr s \<and> a \<noteq> data s \<and> heap s a = ob)"

subsection \<open>Example runs\<close>

definition ex_conn :: IDeltaConnection where
  "ex_conn = \<lparr>clientId = ''me'', existing = False\<rparr>"

text \<open>A map created locally and then attached.\<close>

definition ex_attached :: state where
  "ex_attached = run [Attach 0 [], AttachConnected ex_conn] (MapExtension_create ''m'')"

text \<open>The attached map after a local \<open>set("a", 1)\<close> that is not acknowledged yet.\<close>

definition ex_pending :: state where
  "ex_pending = run [Call (Set ''a'' (Plain (JNum 1))), Tick] ex_attached"

text \<open>A map opened against an existing document, before its load has made any progress.\<close>

definition ex_loading :: state where
  "ex_loading = MapExtension_load ''doc'' 0 []"

text \<open>A nested collaborative object that is still local.\<close>

definition ex_child :: ICollaborativeObject where
  "ex_child = \<lparr>co_id = ''n'', co_type = ''map'', co_isLocal = True\<rparr>"

text \<open>The snapshot \<open>{x: "y"}\<close> taken at sequence number 5.\<close>

definition ex_snapshot :: ISnapshot where
  "ex_snapshot = \<lparr>snap_sequenceNumber = 5,
     snap_snapshot = [(''x'', \<lparr>mv_type = ''Plain'', mv_value = Plain (JStr ''y'')\<rparr>)]\<rparr>"

text \<open>An operation message of client \<open>who\<close>: \<open>set("a", 2)\<close>.\<close>

definition ex_message :: "string \<Rightarrow> int \<Rightarrow> int \<Rightarrow> ISequencedMessage" where
  "ex_message who sq csq =
     \<lparr>seq_sequenceNumber = sq, seq_minimumSequenceNumber = 0, seq_type = OperationType,
      seq_clientId = who, seq_clientSequenceNumber = csq,
      seq_op = \<lparr>op_type = ''set'', op_key = Some ''a'',
                op_value = Some \<lparr>mv_type = ''Plain'', mv_value = Plain (JNum 2)\<rparr>\<rparr>\<rparr>"

text \<open>A message that is not an operation.\<close>

definition ex_control :: "int \<Rightarrow> ISequencedMessage" where
  "ex_control sq = (ex_message ''server'' sq 0)\<lparr>seq_type := ''noop''\<rparr>"

subsection \<open>Evaluation\<close>

text \<open>The equations that evaluate a run on concrete inputs.\<close>

lemmas model_defs = run_def MapExtension_create_def MapExtension_load_def constructor_def
  attach_begin_def attach_connected_def listenForUpdates_def settle_def set_body_def get_body_def
  has_body_def keys_body_def delete_body_def clear_body_def processLocalOperation_def
  call_submit_def submit_def submitOp_def submit_resume_def mark_attached_def processOperation_def
  setCore_def deleteCore_def clearCore_def void_def property_key_def the_data_def snapshot_def
  thrown_def load_install_def load_connected_def processRemoteMessage_def
  processRemoteOperation_def isLocal_def load_extension_def OperationType_def Let_def
  ex_conn_def ex_attached_def ex_pending_def ex_loading_def ex_child_def ex_snapshot_def ex_message_def ex_control_def

section \<open>Lemmas\<close>

subsection \<open>What submission leaves alone\<close>

lemma submitOp_frame:
  "heap (snd (submitOp m s)) = heap s"
  "data (snd (submitOp m s)) = data s"
  "next_addr (snd (submitOp m s)) = next_addr s"
  "collaborativeObjects (snd (submitOp m s)) = collaborativeObjects s"
  "connection (snd (submitOp m s)) = connection s"
  "loadingP (snd (submitOp m s)) = loadingP s"
  "waiters (snd (submitOp m s)) = waiters s"
  "settled (snd (submitOp m s)) = settled s"
  "written (snd (submitOp m s)) = written s"
  "localOps (snd (submitOp m s)) = localOps s"
  "sequenceNumber (snd (submitOp m s)) = sequenceNumber s"
  "emitted (snd (submitOp m s)) = emitted s"
  "map_id (snd (submitOp m s)) = map_id s"
  by (simp_all add: submitOp_def split: option.splits)

lemma call_submit_frame:
  "heap (call_submit m s) = heap s"
  "data (call_submit m s) = data s"
  "next_addr (call_submit m s) = next_addr s"
  "collaborativeObjects (call_submit m s) = collaborativeObjects s"
  "connection (call_submit m s) = connection s"
  "loadingP (call_submit m s) = loadingP s"
  "waiters (call_submit m s) = waiters s"
  "settled (call_submit m s) = settled s"
  "written (call_submit m s) = written s"
  "localOps (call_submit m s) = localOps s"
  "sequenceNumber (call_submit m s) = sequenceNumber s"
  "emitted (call_submit m s) = emitted s"
  "map_id (call_submit m s) = map_id s"
  by (simp_all add: call_submit_def submit_def submitOp_def Let_def
      split: option.splits any.splits prod.splits completion.splits)

subsection \<open>An object that is not \<open>this.data\<close> keeps its slots\<close>

lemma processOperation_keeps:
  "keeps a ob s \<Longrightarrow> keeps a ob (snd (processOperation opn s))"
  by (auto simp: keeps_def processOperation_def setCore_def deleteCore_def clearCore_def)

lemma processLocalOperation_keeps:
  "keeps a ob s \<Longrightarrow> keeps a ob (snd (processLocalOperation opn s))"
  unfolding processLocalOperation_def Let_def
  by (rule processOperation_keeps) (simp add: keeps_def call_submit_frame)

lemma void_snd: "snd (void r) = snd r"
  by (cases r) (auto simp: void_def split: completion.splits)

lemma body_keeps: "keeps a ob s \<Longrightarrow> keeps a ob (snd (body c s))"
proof (cases c)
  case Keys
  then show "keeps a ob s \<Longrightarrow> ?thesis" by (simp add: keys_body_def)
next
  case (Get k)
  then show "keeps a ob s \<Longrightarrow> ?thesis"
    by (auto simp: get_body_def keeps_def split: option.splits any.splits)
next
  case (Has k)
  then show "keeps a ob s \<Longrightarrow> ?thesis" by (simp add: has_body_def)
next
  case (Set k v)
  assume k: "keeps a ob s"
  have "\<And>x. keeps a ob (s\<lparr>collaborativeObjects := x\<rparr>)" using k by (simp add: keeps_def)
  with k Set show ?thesis
    by (cases v) (simp_all add: set_body_def Let_def void_snd processLocalOperation_keeps)
next
  case (Delete k)
  then show "keeps a ob s \<Longrightarrow> ?thesis"
    by (simp add: delete_body_def void_snd processLocalOperation_keeps)
next
  case ClearAll
  then show "keeps a ob s \<Longrightarrow> ?thesis"
    by (simp add: clear_body_def void_snd processLocalOperation_keeps)
qed

lemma settle_keeps: "keeps a ob s \<Longrightarrow> keeps a ob (settle c s)"
proof -
  assume k: "keeps a ob s"
  obtain r s' where b: "body c s = (r, s')" by (cases "body c s")
  from k have "keeps a ob s'" using body_keeps [of a ob s c] b by simp
  then show ?thesis using b by (simp add: settle_def keeps_def)
qed

lemma run_waiters_keeps: "keeps a ob s \<Longrightarrow> keeps a ob (run_waiters cs s)"
  by (induction cs arbitrary: s) (simp_all add: settle_keeps)

lemma snapshot_keeps: "keeps a ob s \<Longrightarrow> keeps a ob (snd (snapshot s))"
  by (auto simp: keeps_def snapshot_def Let_def split: option.splits)

lemma thrown_keeps: "keeps a ob (snd r) \<Longrightarrow> keeps a ob (thrown r)"
  by (cases r) (auto simp: thrown_def keeps_def split: completion.splits)

lemma foldl_call_submit_frame:
  "heap (foldl (\<lambda>t localOp. call_submit localOp t) s ms) = heap s"
  "data (foldl (\<lambda>t localOp. call_submit localOp t) s ms) = data s"
  "next_addr (foldl (\<lambda>t localOp. call_submit localOp t) s ms) = next_addr s"
  "connection (foldl (\<lambda>t localOp. call_submit localOp t) s ms) = connection s"
  "localOps (foldl (\<lambda>t localOp. call_submit localOp t) s ms) = localOps s"
  by (induction ms arbitrary: s) (simp_all add: call_submit_frame)

lemma attach_connected_keeps: "keeps a ob s \<Longrightarrow> keeps a ob (snd (attach_connected c s))"
  by (auto simp: attach_connected_def Let_def listenForUpdates_def keeps_def foldl_call_submit_frame
      split: option.splits)

lemma load_install_keeps: "keeps a ob s \<Longrightarrow> keeps a ob (load_install raw s)"
  by (auto simp: load_install_def Let_def listenForUpdates_def keeps_def split: option.splits)

lemma load_connected_keeps: "keeps a ob s \<Longrightarrow> keeps a ob (load_connected c s)"
proof -
  assume k: "keeps a ob s"
  then have k1: "keeps a ob (s\<lparr>connection := Some c\<rparr>)" by (simp add: keeps_def)
  show ?thesis
  proof (cases "existing c")
    case True
    then show ?thesis using k by (simp add: load_connected_def Let_def keeps_def)
  next
    case False
    then show ?thesis using load_install_keeps [OF k1] by (simp add: load_connected_def Let_def)
  qed
qed

lemma processRemoteOperation_keeps: "keeps a ob s \<Longrightarrow> keeps a ob (snd (processRemoteOperation m s))"
proof -
  assume k: "keeps a ob s"
  then have "\<And>x. keeps a ob (s\<lparr>localOps := x\<rparr>)" and "\<And>x. keeps a ob (s\<lparr>console := x\<rparr>)"
    by (simp_all add: keeps_def)
  then show ?thesis using k processOperation_keeps [OF k]
    by (simp add: processRemoteOperation_def split: option.splits)
qed

lemma processRemoteMessage_keeps: "keeps a ob s \<Longrightarrow> keeps a ob (snd (processRemoteMessage m s))"
proof -
  assume k: "keeps a ob s"
  then have "\<And>x y. keeps a ob (s\<lparr>sequenceNumber := x, minimumSequenceNumber := y\<rparr>)"
    by (simp add: keeps_def)
  then show ?thesis using k
    by (simp add: processRemoteMessage_def Let_def processRemoteOperation_keeps)
qed

lemma submit_resume_keeps: "keeps a ob s \<Longrightarrow> keeps a ob (submit_resume i f s)"
  by (auto simp: submit_resume_def Let_def submitOp_def keeps_def
      split: prod.splits option.splits completion.splits)

lemma step_keeps: "keeps a ob s \<Longrightarrow> keeps a ob (step act s)"
proof (cases act)
  case (Call c)
  then show "keeps a ob s \<Longrightarrow> ?thesis" by (simp add: keeps_def)
next
  case Tick
  assume k: "keeps a ob s"
  then have "keeps a ob (s\<lparr>waiters := []\<rparr>)" by (simp add: keeps_def)
  then show ?thesis using Tick k by (simp add: run_waiters_keeps)
next
  case Snapshot
  then show "keeps a ob s \<Longrightarrow> ?thesis" by (simp add: thrown_keeps snapshot_keeps)
next
  case (Attach sv rg)
  then show "keeps a ob s \<Longrightarrow> ?thesis" by (simp add: attach_begin_def keeps_def)
next
  case (AttachConnected c)
  assume k: "keeps a ob s"
  then have k1: "keeps a ob (s\<lparr>attaching := attaching s - 1\<rparr>)" by (simp add: keeps_def)
  obtain r s' where e: "attach_connected c (s\<lparr>attaching := attaching s - 1\<rparr>) = (r, s')"
    by (cases "attach_connected c (s\<lparr>attaching := attaching s - 1\<rparr>)")
  with attach_connected_keeps [OF k1, of c] have "keeps a ob s'" by simp
  then have "keeps a ob (s'\<lparr>attach_settled := attach_settled s' @ [r]\<rparr>)" by (simp add: keeps_def)
  then show ?thesis using AttachConnected k e by simp
next
  case (LoadConnected c)
  then show "keeps a ob s \<Longrightarrow> ?thesis" by (simp add: load_connected_keeps)
next
  case (LoadRead raw)
  then show "keeps a ob s \<Longrightarrow> ?thesis" by (simp add: load_install_keeps)
next
  case (Deliver m)
  then show "keeps a ob s \<Longrightarrow> ?thesis" by (simp add: thrown_keeps processRemoteMessage_keeps)
next
  case (NestedAttachSettled i f)
  then show "keeps a ob s \<Longrightarrow> ?thesis" by (simp add: submit_resume_keeps)
qed

lemma run_keeps: "keeps a ob s \<Longrightarrow> keeps a ob (run acts s)"
  unfolding run_def by (induction acts arbitrary: s) (simp_all add: step_keeps)

subsection \<open>\<open>this.data\<close> points to an allocated object\<close>

lemma processOperation_store_ok:
  "store_ok s \<Longrightarrow> store_ok (snd (processOperation opn s))"
  by (auto simp: store_ok_def processOperation_def setCore_def deleteCore_def clearCore_def)

lemma processLocalOperation_store_ok:
  "store_ok s \<Longrightarrow> store_ok (snd (processLocalOperation opn s))"
  unfolding processLocalOperation_def Let_def
  by (rule processOperation_store_ok) (simp add: store_ok_def call_submit_frame)

lemma body_store_ok: "store_ok s \<Longrightarrow> store_ok (snd (body c s))"
proof (cases c)
  case Keys
  then show "store_ok s \<Longrightarrow> ?thesis" by (simp add: keys_body_def)
next
  case (Get k)
  then show "store_ok s \<Longrightarrow> ?thesis"
    by (auto simp: get_body_def store_ok_def split: option.splits any.splits)
next
  case (Has k)
  then show "store_ok s \<Longrightarrow> ?thesis" by (simp add: has_body_def)
next
  case (Set k v)
  assume k: "store_ok s"
  have "\<And>x. store_ok (s\<lparr>collaborativeObjects := x\<rparr>)" using k by (simp add: store_ok_def)
  with k Set show ?thesis
    by (cases v) (simp_all add: set_body_def Let_def void_snd processLocalOperation_store_ok)
next
  case (Delete k)
  then show "store_ok s \<Longrightarrow> ?thesis"
    by (simp add: delete_body_def void_snd processLocalOperation_store_ok)
next
  case ClearAll
  then show "store_ok s \<Longrightarrow> ?thesis"
    by (simp add: clear_body_def void_snd processLocalOperation_store_ok)
qed

lemma settle_store_ok: "store_ok s \<Longrightarrow> store_ok (settle c s)"
proof -
  assume k: "store_ok s"
  obtain r s' where b: "body c s = (r, s')" by (cases "body c s")
  from k have "store_ok s'" using body_store_ok [of s c] b by simp
  then show ?thesis using b by (simp add: settle_def store_ok_def)
qed

lemma run_waiters_store_ok: "store_ok s \<Longrightarrow> store_ok (run_waiters cs s)"
  by (induction cs arbitrary: s) (simp_all add: settle_store_ok)

lemma snapshot_store_ok: "store_ok s \<Longrightarrow> store_ok (snd (snapshot s))"
  by (auto simp: store_ok_def snapshot_def Let_def split: option.splits)

lemma thrown_store_ok: "store_ok (snd r) \<Longrightarrow> store_ok (thrown r)"
  by (cases r) (auto simp: thrown_def store_ok_def split: completion.splits)

lemma attach_connected_store_ok: "store_ok s \<Longrightarrow> store_ok (snd (attach_connected c s))"
  by (auto simp: attach_connected_def Let_def listenForUpdates_def store_ok_def foldl_call_submit_frame
      split: option.splits)

lemma load_install_store_ok: "store_ok s \<Longrightarrow> store_ok (load_install raw s)"
  by (auto simp: load_install_def Let_def listenForUpdates_def store_ok_def split: option.splits)

lemma load_connected_store_ok: "store_ok s \<Longrightarrow> store_ok (load_connected c s)"
proof -
  assume k: "store_ok s"
  then have k1: "store_ok (s\<lparr>connection := Some c\<rparr>)" by (simp add: store_ok_def)
  show ?thesis
  proof (cases "existing c")
    case True
    then show ?thesis using k by (simp add: load_connected_def Let_def store_ok_def)
  next
    case False
    then show ?thesis using load_install_store_ok [OF k1] by (simp add: load_connected_def Let_def)
  qed
qed

lemma processRemoteOperation_store_ok: "store_ok s \<Longrightarrow> store_ok (snd (processRemoteOperation m s))"
proof -
  assume k: "store_ok s"
  then have "\<And>x. store_ok (s\<lparr>localOps := x\<rparr>)" and "\<And>x. store_ok (s\<lparr>console := x\<rparr>)"
    by (simp_all add: store_ok_def)
  then show ?thesis using k processOperation_store_ok [OF k]
    by (simp add: processRemoteOperation_def split: option.splits)
qed

lemma processRemoteMessage_store_ok: "store_ok s \<Longrightarrow> store_ok (snd (processRemoteMessage m s))"
proof -
  assume k: "store_ok s"
  then have "\<And>x y. store_ok (s\<lparr>sequenceNumber := x, minimumSequenceNumber := y\<rparr>)"
    by (simp add: store_ok_def)
  then show ?thesis using k
    by (simp add: processRemoteMessage_def Let_def processRemoteOperation_store_ok)
qed

lemma submit_resume_store_ok: "store_ok s \<Longrightarrow> store_ok (submit_resume i f s)"
  by (auto simp: submit_resume_def Let_def submitOp_def store_ok_def
      split: prod.splits option.splits completion.splits)

lemma step_store_ok: "store_ok s \<Longrightarrow> store_ok (step act s)"
proof (cases act)
  case (Call c)
  then show "store_ok s \<Longrightarrow> ?thesis" by (simp add: store_ok_def)
next
  case Tick
  assume k: "store_ok s"
  then have "store_ok (s\<lparr>waiters := []\<rparr>)" by (simp add: store_ok_def)
  then show ?thesis using Tick k by (simp add: run_waiters_store_ok)
next
  case Snapshot
  then show "store_ok s \<Longrightarrow> ?thesis" by (simp add: thrown_store_ok snapshot_store_ok)
next
  case (Attach sv rg)
  then show "store_ok s \<Longrightarrow> ?thesis" by (simp add: attach_begin_def store_ok_def)
next
  case (AttachConnected c)
  assume k: "store_ok s"
  then have k1: "store_ok (s\<lparr>attaching := attaching s - 1\<rparr>)" by (simp add: store_ok_def)
  obtain r s' where e: "attach_connected c (s\<lparr>attaching := attaching s - 1\<rparr>) = (r, s')"
    by (cases "attach_connected c (s\<lparr>attaching := attaching s - 1\<rparr>)")
  with attach_connected_store_ok [OF k1, of c] have "store_ok s'" by simp
  then have "store_ok (s'\<lparr>attach_settled := attach_settled s' @ [r]\<rparr>)" by (simp add: store_ok_def)
  then show ?thesis using AttachConnected k e by simp
next
  case (LoadConnected c)
  then show "store_ok s \<Longrightarrow> ?thesis" by (simp add: load_connected_store_ok)
next
  case (LoadRead raw)
  then show "store_ok s \<Longrightarrow> ?thesis" by (simp add: load_install_store_ok)
next
  case (Deliver m)
  then show "store_ok s \<Longrightarrow> ?thesis" by (simp add: thrown_store_ok processRemoteMessage_store_ok)
next
  case (NestedAttachSettled i f)
  then show "store_ok s \<Longrightarrow> ?thesis" by (simp add: submit_resume_store_ok)
qed

lemma run_store_ok: "store_ok s \<Longrightarrow> store_ok (run acts s)"
  unfolding run_def by (induction acts arbitrary: s) (simp_all add: step_store_ok)

lemma constructor_store_ok: "store_ok (constructor i sv rg)"
  by (simp add: store_ok_def constructor_def)

lemma snapshot_keeps_clone:
  "store_ok s \<Longrightarrow> keeps (next_addr s) (heap s (data s)) (snd (snapshot s))"
  by (auto simp: store_ok_def keeps_def snapshot_def Let_def split: option.splits)

lemma snapshot_written:
  "fst (snapshot s) = Return () \<Longrightarrow>
     written (snd (snapshot s)) =
       written s @ [(map_id s, \<lparr>blob_sequenceNumber = sequenceNumber s, blob_snapshot = next_addr s\<rparr>)]"
  by (auto simp: snapshot_def Let_def split: option.splits)

subsection \<open>Queued calls and their results\<close>

lemma processOperation_frame:
  "collaborativeObjects (snd (processOperation opn s)) = collaborativeObjects s"
  "registry (snd (processOperation opn s)) = registry s"
  "loadingP (snd (processOperation opn s)) = loadingP s"
  "waiters (snd (processOperation opn s)) = waiters s"
  "settled (snd (processOperation opn s)) = settled s"
  "sequenceNumber (snd (processOperation opn s)) = sequenceNumber s"
  "localOps (snd (processOperation opn s)) = localOps s"
  "connection (snd (processOperation opn s)) = connection s"
  by (simp_all add: processOperation_def setCore_def deleteCore_def clearCore_def)


lemma processLocalOperation_frame:
  "collaborativeObjects (snd (processLocalOperation opn s)) = collaborativeObjects s"
  "loadingP (snd (processLocalOperation opn s)) = loadingP s"
  "waiters (snd (processLocalOperation opn s)) = waiters s"
  "settled (snd (processLocalOperation opn s)) = settled s"
  by (simp_all add: processLocalOperation_def Let_def processOperation_frame call_submit_frame)

lemma body_frame:
  "loadingP (snd (body c s)) = loadingP s"
  "waiters (snd (body c s)) = waiters s"
  "settled (snd (body c s)) = settled s"
proof -
  have "loadingP (snd (body c s)) = loadingP s \<and> waiters (snd (body c s)) = waiters s
      \<and> settled (snd (body c s)) = settled s"
  proof (cases c)
    case (Get k)
    then show ?thesis by (auto simp: get_body_def split: option.splits any.splits)
  next
    case (Set k v)
    then show ?thesis
      by (cases v) (simp_all add: set_body_def Let_def void_snd processLocalOperation_frame)
  qed (simp_all add: keys_body_def has_body_def delete_body_def clear_body_def void_snd
        processLocalOperation_frame)
  then show "loadingP (snd (body c s)) = loadingP s" "waiters (snd (body c s)) = waiters s"
    "settled (snd (body c s)) = settled s" by simp_all
qed

lemma settle_alt: "settle c s = (snd (body c s))\<lparr>settled := settled s @ [(c, fst (body c s))]\<rparr>"
proof (cases "body c s")
  case (Pair r s')
  then have "settled s' = settled s" using body_frame(3) [of c s] by simp
  with Pair show ?thesis by (simp add: settle_def)
qed


















subsection \<open>The connection and the blobs written\<close>

lemma processOperation_written: "written (snd (processOperation opn s)) = written s"
  by (simp add: processOperation_def setCore_def deleteCore_def clearCore_def)

lemma processLocalOperation_conn:
  "connection (snd (processLocalOperation opn s)) = connection s"
  "written (snd (processLocalOperation opn s)) = written s"
  by (simp_all add: processLocalOperation_def Let_def processOperation_frame processOperation_written
      call_submit_frame)

lemma body_conn:
  "connection (snd (body c s)) = connection s \<and> written (snd (body c s)) = written s"
proof (cases c)
  case (Get k)
  then show ?thesis by (auto simp: get_body_def split: option.splits any.splits)
next
  case (Set k v)
  then show ?thesis
    by (cases v) (simp_all add: set_body_def Let_def void_snd processLocalOperation_conn)
qed (simp_all add: keys_body_def has_body_def delete_body_def clear_body_def void_snd
      processLocalOperation_conn)

lemma settle_conn:
  "connection (settle c s) = connection s \<and> written (settle c s) = written s"
  by (simp add: settle_alt body_conn)

lemma run_waiters_conn:
  "connection (run_waiters cs s) = connection s \<and> written (run_waiters cs s) = written s"
  by (induction cs arbitrary: s) (simp_all add: settle_conn)

lemma thrown_conn:
  "connection (thrown r) = connection (snd r) \<and> written (thrown r) = written (snd r)"
  by (cases r) (simp add: thrown_def split: completion.splits)


lemma snapshot_written_grows: "\<exists>more. written (snd (snapshot s)) = written s @ more"
  by (simp add: snapshot_def Let_def split: option.splits)

lemma processRemoteOperation_conn:
  "connection (snd (processRemoteOperation m s)) = connection s \<and>
   written (snd (processRemoteOperation m s)) = written s"
  by (simp add: processRemoteOperation_def processOperation_frame processOperation_written
      split: option.splits)

lemma processRemoteMessage_conn:
  "connection (snd (processRemoteMessage m s)) = connection s \<and>
   written (snd (processRemoteMessage m s)) = written s"
  by (simp add: processRemoteMessage_def Let_def processRemoteOperation_conn)

lemma submit_resume_conn:
  "connection (submit_resume i r s) = connection s \<and> written (submit_resume i r s) = written s"
  by (simp add: submit_resume_def Let_def submitOp_def
      split: prod.splits option.splits completion.splits)

lemma load_install_conn:
  "connection (load_install raw s) = connection s \<and> written (load_install raw s) = written s"
  by (simp add: load_install_def Let_def listenForUpdates_def split: option.splits)

lemma load_connected_conn:
  "connection (load_connected c s) = Some c \<and> written (load_connected c s) = written s"
  by (simp add: load_connected_def Let_def load_install_conn)

lemma foldl_call_submit_written:
  "written (foldl (\<lambda>t localOp. call_submit localOp t) s ms) = written s"
  by (induction ms arbitrary: s) (simp_all add: call_submit_frame)

lemma attach_connected_conn:
  "connection (snd (attach_connected c s)) = Some c \<and>
   written (snd (attach_connected c s)) = written s"
  by (simp add: attach_connected_def Let_def listenForUpdates_def foldl_call_submit_frame
      foldl_call_submit_written split: option.splits)

lemma step_written_grows: "\<exists>more. written (step a s) = written s @ more"
proof (cases a)
  case (Call c)
  then show ?thesis by simp
next
  case Tick
  then show ?thesis by (simp add: run_waiters_conn)
next
  case Snapshot
  then show ?thesis using snapshot_written_grows [of s] by (simp add: thrown_conn)
next
  case (Attach sv rg)
  then show ?thesis by (simp add: attach_begin_def)
next
  case (AttachConnected c)
  obtain r s' where e: "attach_connected c (s\<lparr>attaching := attaching s - 1\<rparr>) = (r, s')"
    by (cases "attach_connected c (s\<lparr>attaching := attaching s - 1\<rparr>)")
  then have "written s' = written s"
    using attach_connected_conn [of c "s\<lparr>attaching := attaching s - 1\<rparr>"] by simp
  then show ?thesis using AttachConnected e by simp
next
  case (LoadConnected c)
  then show ?thesis by (simp add: load_connected_conn)
next
  case (LoadRead raw)
  then show ?thesis by (simp add: load_install_conn)
next
  case (Deliver m)
  then show ?thesis by (simp add: thrown_conn processRemoteMessage_conn)
next
  case (NestedAttachSettled i r)
  then show ?thesis by (simp add: submit_resume_conn)
qed

lemma run_written_grows: "\<exists>more. written (run acts s) = written s @ more"
proof (induction acts arbitrary: s)
  case Nil
  then show ?case by (simp add: run_def)
next
  case (Cons a acts)
  obtain m1 where 1: "written (step a s) = written s @ m1" using step_written_grows by blast
  obtain m2 where 2: "written (run acts (step a s)) = written (step a s) @ m2"
    using Cons.IH by blast
  have "run (a # acts) s = run acts (step a s)" by (simp add: run_def)
  then show ?case using 1 2 by simp
qed




lemma run_store_ok_from_constructor: "store_ok (run acts (constructor i sv rg))"
  by (rule run_store_ok) (rule constructor_store_ok)


lemma ex_pending_facts:
  "connection ex_pending = Some ex_conn"
  "localOps ex_pending =
     [\<lparr>msg_clientSequenceNumber = 0,
       msg_op = \<lparr>op_type = ''set'', op_key = Some ''a'',
                 op_value = Some \<lparr>mv_type = ''Plain'', mv_value = Plain (JNum 1)\<rparr>\<rparr>,
       msg_referenceSequenceNumber = 0\<rparr>]"
  "emitted ex_pending = [ValueChanged ''a'']"
  by (simp_all add: model_defs)



text \<open>
  While \<open>loadingP\<close> is pending, a call of one of the six \<open>async\<close> methods does nothing
  but wait: its body is queued and \<open>Tick\<close> does not run it.
\<close>

lemma async_calls_wait_for_load:
  "loadingP s = Pending \<Longrightarrow> step Tick (step (Call c) s) = s\<lparr>waiters := waiters s @ [c]\<rparr>"
  by simp

subsection \<open>When submission keeps the order\<close>

text \<open>
  A \<open>submit\<close> that does not suspend hands its message over before it returns. When none
  of the entries of \<open>localOps\<close> makes \<open>submit\<close> suspend or fail, \<open>attach\<close> hands them over
  in the order of the log.
\<close>

lemma call_submit_deltaManager: "deltaManager (call_submit m s) = deltaManager s"
  by (simp add: call_submit_def submit_def submitOp_def Let_def
      split: option.splits any.splits prod.splits completion.splits)

lemma submit_depends:
  "collaborativeObjects t = collaborativeObjects s \<Longrightarrow> deltaManager t = deltaManager s \<Longrightarrow>
   fst (submit m t) = fst (submit m s)"
  by (simp add: submit_def submitOp_def Let_def split: option.splits any.splits)

lemma call_submit_at_once:
  "fst (submit m s) = Some (Return ()) \<Longrightarrow> outbound (call_submit m s) = outbound s @ [m]"
  by (auto simp: call_submit_def submit_def submitOp_def Let_def
      split: option.splits any.splits if_splits)

lemma foldl_call_submit_in_order:
  "\<forall>m\<in>set ms. fst (submit m s) = Some (Return ()) \<Longrightarrow>
   outbound (foldl (\<lambda>t localOp. call_submit localOp t) s ms) = outbound s @ ms"
proof (induction ms arbitrary: s)
  case Nil
  then show ?case by simp
next
  case (Cons m ms)
  have 1: "outbound (call_submit m s) = outbound s @ [m]"
    using Cons.prems by (simp add: call_submit_at_once)
  have "\<forall>x\<in>set ms. fst (submit x (call_submit m s)) = Some (Return ())"
    using Cons.prems
    by (simp add: submit_depends [of "call_submit m s" s] call_submit_frame call_submit_deltaManager)
  then have "outbound (foldl (\<lambda>t localOp. call_submit localOp t) (call_submit m s) ms)
      = outbound (call_submit m s) @ ms" by (rule Cons.IH)
  then show ?case using 1 by simp
qed

lemma attach_connected_in_order:
  assumes "\<not> existing c" and "services s = Some sv"
    and "\<forall>m\<in>set (localOps s).
           fst (submit m (s\<lparr>connection := Some c,
                            deltaManager := Some \<lparr>dm_sequenceNumber = sequenceNumber s\<rparr>\<rparr>))
             = Some (Return ())"
  shows "outbound (snd (attach_connected c s)) = outbound s @ localOps s"
  using assms foldl_call_submit_in_order
    [of "localOps s" "s\<lparr>connection := Some c,
                        deltaManager := Some \<lparr>dm_sequenceNumber = sequenceNumber s\<rparr>\<rparr>"]
  by (simp add: attach_connected_def Let_def listenForUpdates_def)

text \<open>\<open>attach\<close> itself removes nothing from \<open>localOps\<close>.\<close>

lemma attach_connected_keeps_log: "localOps (snd (attach_connected c s)) = localOps s"
  by (simp add: attach_connected_def Let_def listenForUpdates_def foldl_call_submit_frame
      split: option.splits)

section \<open>The claims\<close>







text \<open>
  C4. Submission order is not issue order. On an attached map \<open>set("child", n)\<close>, with \<open>n\<close>
  a nested object that is still local, is followed by \<open>set("b", 1)\<close>. The first message
  (client sequence number 0) waits in \<open>submit\<close> for the attach of \<open>n\<close>; the second one
  (client sequence number 1) is handed to the delta manager at once, and the first one
  only after it, when the attach of \<open>n\<close> has completed.
\<close>

theorem later_set_overtakes_reference_set:
  "map msg_clientSequenceNumber
     (localOps (run [Call (Set ''child'' (CollabObject ex_child)), Call (Set ''b'' (Plain (JNum 1))),
                     Tick, NestedAttachSettled 0 (Return ())] ex_attached)) = [0, 1] \<and>
   map msg_clientSequenceNumber
     (outbound (run [Call (Set ''child'' (CollabObject ex_child)), Call (Set ''b'' (Plain (JNum 1))),
                     Tick] ex_attached)) = [1] \<and>
   map msg_clientSequenceNumber
     (outbound (run [Call (Set ''child'' (CollabObject ex_child)), Call (Set ''b'' (Plain (JNum 1))),
                     Tick, NestedAttachSettled 0 (Return ())] ex_attached)) = [1, 0]"
  by (simp add: model_defs)

text \<open>
  C5, as stated: \<open>attach\<close> on a map that is already attached fails. It does not: the map
  attached to the services \<open>0\<close> is attached again, to the services \<open>1\<close>, whose \<open>connect\<close>
  reports the object as new, and \<open>attach\<close> returns normally.
\<close>

theorem attach_again_succeeds:
  "\<not> isLocal ex_attached \<and>
   fst (attach_connected \<lparr>clientId = ''me2'', existing = False\<rparr> (attach_begin 1 [] ex_attached))
     = Return ()"
  by (simp add: model_defs)

text \<open>
  C5, amended. \<open>attach\<close> does not look at the state of the map. It throws (an assertion
  error, after it has replaced the services, the registry and the connection) exactly
  when \<open>connect\<close> reports the object as existing, and returns normally otherwise, on a
  local map and on an attached one alike.
\<close>

theorem attach_fails_only_on_existing:
  "fst (attach_connected c (attach_begin sv rg s)) =
     (if existing c then Throw AssertionError else Return ()) \<and>
   connection (snd (attach_connected c (attach_begin sv rg s))) = Some c"
  by (simp add: attach_connected_def attach_begin_def listenForUpdates_def Let_def
      foldl_call_submit_frame)

theorem attach_fails_only_on_existing_witness:
  "fst (attach_connected \<lparr>clientId = ''me2'', existing = True\<rparr> (attach_begin 0 [] ex_attached))
     = Throw AssertionError \<and>
   fst (attach_connected \<lparr>clientId = ''me2'', existing = True\<rparr>
          (attach_begin 0 [] (MapExtension_create ''m''))) = Throw AssertionError \<and>
   fst (attach_connected ex_conn (attach_begin 0 [] (MapExtension_create ''m''))) = Return ()"
  using attach_fails_only_on_existing [of "\<lparr>clientId = ''me2'', existing = True\<rparr>" 0 "[]" ex_attached]
    attach_fails_only_on_existing [of "\<lparr>clientId = ''me2'', existing = True\<rparr>" 0 "[]"
      "MapExtension_create ''m''"]
    attach_fails_only_on_existing [of ex_conn 0 "[]" "MapExtension_create ''m''"]
  by (simp add: ex_conn_def)

text \<open>
  C6. \<open>attach\<close> does not submit the log in log order. A local map holds the entries of
  \<open>set("child", n)\<close>, with \<open>n\<close> still local, and of \<open>set("b", 1)\<close>. \<open>attach\<close> returns
  normally and leaves both entries in the log, but the only message handed to the delta
  manager by then is the second one; the first follows when the attach of \<open>n\<close> has
  completed.
\<close>

theorem attach_drains_out_of_order:
  "map msg_clientSequenceNumber
     (localOps (run [Call (Set ''child'' (CollabObject ex_child)), Call (Set ''b'' (Plain (JNum 1))),
                     Tick, Attach 0 [], AttachConnected ex_conn, NestedAttachSettled 0 (Return ())]
                  (MapExtension_create ''m''))) = [0, 1] \<and>
   attach_settled (run [Call (Set ''child'' (CollabObject ex_child)), Call (Set ''b'' (Plain (JNum 1))),
                     Tick, Attach 0 [], AttachConnected ex_conn]
                  (MapExtension_create ''m'')) = [Return ()] \<and>
   map msg_clientSequenceNumber
     (outbound (run [Call (Set ''child'' (CollabObject ex_child)), Call (Set ''b'' (Plain (JNum 1))),
                     Tick, Attach 0 [], AttachConnected ex_conn]
                  (MapExtension_create ''m''))) = [1] \<and>
   map msg_clientSequenceNumber
     (outbound (run [Call (Set ''child'' (CollabObject ex_child)), Call (Set ''b'' (Plain (JNum 1))),
                     Tick, Attach 0 [], AttachConnected ex_conn, NestedAttachSettled 0 (Return ())]
                  (MapExtension_create ''m''))) = [1, 0]"
  by (simp add: model_defs)

text \<open>
  C7. The blob written by \<open>snapshot()\<close> is a copy. In every state \<open>s\<close> that a run reaches
  from a new map, \<open>snapshot()\<close> puts the slots of \<open>this.data\<close> into a new object, and
  whatever happens afterwards (local and remote set, delete and clear among it) leaves
  that object as it was; if \<open>snapshot()\<close> returned normally, the blob handed to the
  storage service, with the sequence number of \<open>s\<close> and the pointer to that object, is
  still the one that was written.
\<close>

theorem snapshot_blob_is_a_copy:
  assumes "s = run pre (constructor i sv rg)"
  shows "heap (run post (snd (snapshot s))) (next_addr s) = the_data s \<and>
         (fst (snapshot s) = Return () \<longrightarrow>
            (\<exists>more. written (run post (snd (snapshot s))) =
               written s @ (map_id s, \<lparr>blob_sequenceNumber = sequenceNumber s,
                                        blob_snapshot = next_addr s\<rparr>) # more))"
proof -
  have ok: "store_ok s" unfolding assms by (rule run_store_ok_from_constructor)
  have "keeps (next_addr s) (heap s (data s)) (run post (snd (snapshot s)))"
    by (rule run_keeps) (rule snapshot_keeps_clone [OF ok])
  then have 1: "heap (run post (snd (snapshot s))) (next_addr s) = the_data s"
    by (simp add: keeps_def the_data_def)
  obtain more where "written (run post (snd (snapshot s))) = written (snd (snapshot s)) @ more"
    using run_written_grows by blast
  then have 2: "fst (snapshot s) = Return () \<longrightarrow>
      (\<exists>more. written (run post (snd (snapshot s))) =
         written s @ (map_id s, \<lparr>blob_sequenceNumber = sequenceNumber s,
                                  blob_snapshot = next_addr s\<rparr>) # more)"
    by (simp add: snapshot_written)
  from 1 2 show ?thesis by blast
qed

theorem snapshot_blob_is_a_copy_witness:
  "fst (snapshot (run [Attach 0 [], AttachConnected ex_conn, Call (Set ''a'' (Plain (JNum 1))), Tick]
          (constructor ''m'' None None))) = Return () \<and>
   heap (run [Call (Set ''a'' (Plain (JNum 2))), Call (Delete ''a''), Call ClearAll, Tick,
              Deliver (ex_message ''you'' 1 0)]
          (snd (snapshot (run [Attach 0 [], AttachConnected ex_conn,
                               Call (Set ''a'' (Plain (JNum 1))), Tick]
                            (constructor ''m'' None None))))) 1
     = [(''a'', Some \<lparr>mv_type = ''Plain'', mv_value = Plain (JNum 1)\<rparr>)] \<and>
   the_data (run [Call (Set ''a'' (Plain (JNum 2))), Call (Delete ''a''), Call ClearAll, Tick,
              Deliver (ex_message ''you'' 1 0)]
          (snd (snapshot (run [Attach 0 [], AttachConnected ex_conn,
                               Call (Set ''a'' (Plain (JNum 1))), Tick]
                            (constructor ''m'' None None)))))
     = [(''a'', Some \<lparr>mv_type = ''Plain'', mv_value = Plain (JNum 2)\<rparr>)]"
proof -
  let ?pre = "[Attach 0 [], AttachConnected ex_conn, Call (Set ''a'' (Plain (JNum 1))), Tick]"
  let ?post = "[Call (Set ''a'' (Plain (JNum 2))), Call (Delete ''a''), Call ClearAll, Tick,
              Deliver (ex_message ''you'' 1 0)]"
  have n: "next_addr (run ?pre (constructor ''m'' None None)) = 1" by (simp add: model_defs)
  have d: "the_data (run ?pre (constructor ''m'' None None)) =
      [(''a'', Some \<lparr>mv_type = ''Plain'', mv_value = Plain (JNum 1)\<rparr>)]" by (simp add: model_defs)
  have r: "fst (snapshot (run ?pre (constructor ''m'' None None))) = Return ()"
    by (simp add: model_defs)
  have e: "the_data (run ?post (snd (snapshot (run ?pre (constructor ''m'' None None))))) =
      [(''a'', Some \<lparr>mv_type = ''Plain'', mv_value = Plain (JNum 2)\<rparr>)]" by (simp add: model_defs)
  show ?thesis
    using snapshot_blob_is_a_copy [OF refl, of ?post ?pre "''m''" None None] n d r e
    by (simp only:)
qed

text \<open>
  C8. \<open>snapshot()\<close> does not wait for the initial load. On a map opened against an
  existing document and still loading, a call of \<open>keys\<close> waits, but \<open>snapshot()\<close> returns
  at once and hands the storage service the blob of the empty map at sequence number 0.
  The load then restores the stored snapshot \<open>{x: "y"}\<close> at sequence number 5.
\<close>

theorem snapshot_does_not_wait_for_load:
  "loadingP ex_loading = Pending \<and>
   step Tick (step (Call Keys) ex_loading) = ex_loading\<lparr>waiters := [Keys]\<rparr> \<and>
   fst (snapshot ex_loading) = Return () \<and>
   written (step Snapshot ex_loading) = [(''doc'', \<lparr>blob_sequenceNumber = 0, blob_snapshot = 1\<rparr>)] \<and>
   heap (step Snapshot ex_loading) 1 = [] \<and>
   loadingP (step Snapshot ex_loading) = Pending \<and>
   loadingP (run [Snapshot, LoadConnected \<lparr>clientId = ''me'', existing = True\<rparr>,
                  LoadRead (Some ex_snapshot)] ex_loading) = Resolved \<and>
   sequenceNumber (run [Snapshot, LoadConnected \<lparr>clientId = ''me'', existing = True\<rparr>,
                  LoadRead (Some ex_snapshot)] ex_loading) = 5 \<and>
   the_data (run [Snapshot, LoadConnected \<lparr>clientId = ''me'', existing = True\<rparr>,
                  LoadRead (Some ex_snapshot)] ex_loading) =
     [(''x'', Some \<lparr>mv_type = ''Plain'', mv_value = Plain (JStr ''y'')\<rparr>)]"
  by (simp add: model_defs)




text \<open>
  C10. For a message that is not an operation, \<open>processRemoteMessage\<close> either assigns
  \<open>sequenceNumber\<close> and \<open>minimumSequenceNumber\<close> from the message and returns (when the
  message is the next in sequence), or throws the assertion error of C3 and assigns
  nothing. Either way the data, \<open>localOps\<close>, \<open>clientSequenceNumber\<close> and
  \<open>collaborativeObjects\<close> are untouched and no event is emitted.
\<close>

theorem control_message_frame:
  assumes "seq_type m \<noteq> OperationType"
  shows "processRemoteMessage m s =
           (if seq_sequenceNumber m = sequenceNumber s + 1
            then (Return (), s\<lparr>sequenceNumber := seq_sequenceNumber m,
                               minimumSequenceNumber := seq_minimumSequenceNumber m\<rparr>)
            else (Throw AssertionError, s)) \<and>
         heap (snd (processRemoteMessage m s)) = heap s \<and>
         data (snd (processRemoteMessage m s)) = data s \<and>
         localOps (snd (processRemoteMessage m s)) = localOps s \<and>
         clientSequenceNumber (snd (processRemoteMessage m s)) = clientSequenceNumber s \<and>
         collaborativeObjects (snd (processRemoteMessage m s)) = collaborativeObjects s \<and>
         emitted (snd (processRemoteMessage m s)) = emitted s"
  using assms by (simp add: processRemoteMessage_def Let_def)

theorem control_message_frame_witness:
  "seq_type (ex_control 1) \<noteq> OperationType \<and>
   processRemoteMessage (ex_control 1) ex_pending =
     (Return (), ex_pending\<lparr>sequenceNumber := 1, minimumSequenceNumber := 0\<rparr>) \<and>
   localOps (snd (processRemoteMessage (ex_control 1) ex_pending)) = localOps ex_pending \<and>
   emitted (snd (processRemoteMessage (ex_control 1) ex_pending)) = [ValueChanged ''a'']"
proof -
  have t: "seq_type (ex_control 1) \<noteq> OperationType"
    by (simp add: ex_control_def ex_message_def OperationType_def)
  have s: "sequenceNumber ex_pending = 0" by (simp add: model_defs)
  show ?thesis using control_message_frame [OF t, of ex_pending] t s
    by (simp add: ex_control_def ex_message_def ex_pending_facts)
qed

end
